theory Spec2Isabelle
  imports Main "HOL-Library.Sublist"
begin

section \<open>JavaScript values\<close>

text \<open>
  The values that travel between the screens and the key-value store are the ones JSON
  can carry. An object is a finite map from property names to values. Reading a property
  gives an option, \<open>None\<close> standing for \<open>undefined\<close>: that is what reading an absent
  property gives. The order in which an object enumerates its properties is not
  modelled.

  \<open>JNum n\<close> stands for the Number nearest to the integer \<open>n\<close>; up to \<open>2 ^ 53\<close> in
  magnitude that is \<open>n\<close> itself. The code never calculates with numbers, it only
  tests them for being falsy, and the Number nearest to \<open>n\<close> is zero exactly when
  \<open>n\<close> is.

  A \<open>char\<close> is a UTF-16 code unit below 256, so the strings of the model are the
  Latin-1 ones.
\<close>

datatype jval =
    JNull
  | JBool bool
  | JNum int
  | JStr string
  | JArr "jval list"
  | JObj "string \<Rightarrow> jval option"

type_synonym obj = "string \<Rightarrow> jval option"

text \<open>
  An object as the caller of \<open>updateMyRecipe\<close> builds it in memory, before it has gone
  through JSON: an own property holds a JSON value or \<open>undefined\<close>. Such a property
  reads as \<open>undefined\<close>, like an absent one, but it is a property: a spread copies it
  over what was there, and \<open>JSON.stringify\<close> then leaves it out.
\<close>

datatype slot = Undefined | Defined jval

type_synonym literal = "string \<Rightarrow> slot option"

text \<open>
  The properties that hold a value: what a read \<open>u.key\<close> gives, and what
  \<open>JSON.stringify\<close> writes for the object.
\<close>

definition defined_props :: "literal \<Rightarrow> obj" where
  "defined_props u key = (case u key of Some (Defined v) \<Rightarrow> Some v | _ \<Rightarrow> None)"

text \<open>The own properties of an object that holds values only.\<close>

definition own_props :: "obj \<Rightarrow> literal" where
  "own_props props key = map_option Defined (props key)"

datatype error = StorageError | SyntaxError | TypeError

text \<open>
  \<open>a === b\<close> where at least one side comes fresh out of \<open>JSON.parse\<close>: primitives are
  compared by value, and an array or object of a fresh parse is a new allocation, identical
  to nothing else.
\<close>

fun strict_eq :: "jval \<Rightarrow> jval \<Rightarrow> bool" where
  "strict_eq JNull JNull = True"
| "strict_eq (JBool a) (JBool b) = (a = b)"
| "strict_eq (JNum a) (JNum b) = (a = b)"
| "strict_eq (JStr a) (JStr b) = (a = b)"
| "strict_eq _ _ = False"

text \<open>The same on property reads, where \<open>undefined === undefined\<close> holds.\<close>

fun strict_eq_opt :: "jval option \<Rightarrow> jval option \<Rightarrow> bool" where
  "strict_eq_opt None None = True"
| "strict_eq_opt (Some a) (Some b) = strict_eq a b"
| "strict_eq_opt _ _ = False"

text \<open>
  \<open>v.key\<close> for a property name that no prototype defines (\<open>id\<close>, \<open>category\<close>,
  \<open>image\<close>): \<open>null\<close> has no properties and the read raises; a string, number, boolean
  or array has none by that name.
\<close>

fun get_property :: "jval \<Rightarrow> string \<Rightarrow> error + jval option" where
  "get_property JNull key = Inl TypeError"
| "get_property (JObj props) key = Inr (props key)"
| "get_property _ key = Inr None"

fun truthy :: "jval option \<Rightarrow> bool" where
  "truthy None = False"
| "truthy (Some JNull) = False"
| "truthy (Some (JBool b)) = b"
| "truthy (Some (JNum n)) = (n \<noteq> 0)"
| "truthy (Some (JStr s)) = (s \<noteq> [])"
| "truthy (Some (JArr _)) = True"
| "truthy (Some (JObj _)) = True"

text \<open>\<open>a || b\<close>\<close>

definition js_or :: "jval option \<Rightarrow> jval option \<Rightarrow> jval option" where
  "js_or a b = (if truthy a then a else b)"

text \<open>\<open>Array.prototype.filter\<close> with a callback that may raise.\<close>

fun filter_js :: "('a \<Rightarrow> error + bool) \<Rightarrow> 'a list \<Rightarrow> error + 'a list" where
  "filter_js p [] = Inr []"
| "filter_js p (x # xs) =
     (case p x of
        Inl e \<Rightarrow> Inl e
      | Inr keep \<Rightarrow>
          (case filter_js p xs of
             Inl e \<Rightarrow> Inl e
           | Inr ys \<Rightarrow> Inr (if keep then x # ys else ys)))"

section \<open>Strings\<close>

text \<open>
  The white space that \<open>trim\<close> and \<open>parseInt\<close> strip (WhiteSpace and LineTerminator of
  the language), as far as it lies below 256: tab, line feed, vertical tab, form feed,
  carriage return, space and the no-break space.
\<close>

definition isWhiteSpace :: "char \<Rightarrow> bool" where
  "isWhiteSpace c = (of_char c \<in> {9, 10, 11, 12, 13, 32, 160 :: nat})"

definition trim :: "string \<Rightarrow> string" where
  "trim s = rev (dropWhile isWhiteSpace (rev (dropWhile isWhiteSpace s)))"

text \<open>\<open>s.split(sep)\<close> for a separator of one character.\<close>

fun split_str :: "char \<Rightarrow> string \<Rightarrow> string list" where
  "split_str sep [] = [[]]"
| "split_str sep (c # cs) =
     (if c = sep then [] # split_str sep cs
      else (case split_str sep cs of
              [] \<Rightarrow> [[c]]
            | piece # pieces \<Rightarrow> (c # piece) # pieces))"

text \<open>\<open>pieces.join(sep)\<close>, the inverse the Edit form uses to fill its text areas.\<close>

fun join_str :: "char \<Rightarrow> string list \<Rightarrow> string" where
  "join_str sep [] = []"
| "join_str sep [piece] = piece"
| "join_str sep (piece # pieces) = piece @ sep # join_str sep pieces"

definition isDigit :: "char \<Rightarrow> bool" where
  "isDigit c = (c \<in> set ''0123456789'')"

definition digitValue :: "char \<Rightarrow> nat" where
  "digitValue c = of_char c - 48"

definition digitsValue :: "string \<Rightarrow> nat" where
  "digitsValue ds = foldl (\<lambda>acc c. 10 * acc + digitValue c) 0 ds"

text \<open>
  \<open>parseInt(inputString, 10)\<close>: leading white space is skipped, one sign is read, then
  the longest run of decimal digits; whatever follows is ignored. \<open>None\<close> is \<open>NaN\<close>
  (no digit where one is needed).
\<close>

definition parseInt10 :: "string \<Rightarrow> int option" where
  "parseInt10 inputString =
     (let S = dropWhile isWhiteSpace inputString;
          sign = (if S \<noteq> [] \<and> hd S = CHR ''-'' then - 1 else 1 :: int);
          S' = (if S \<noteq> [] \<and> (hd S = CHR ''+'' \<or> hd S = CHR ''-'') then tl S else S);
          Z = takeWhile isDigit S'
      in if Z = [] then None else Some (sign * int (digitsValue Z)))"

text \<open>\<open>x || d\<close> for a Number \<open>x\<close>: \<open>NaN\<close> and zero are falsy.\<close>

definition num_or :: "int option \<Rightarrow> int \<Rightarrow> int" where
  "num_or x d = (case x of None \<Rightarrow> d | Some n \<Rightarrow> if n = 0 then d else n)"

text \<open>\<open>s || d\<close> for a string \<open>s\<close>: the empty string is falsy.\<close>

definition str_or :: "string \<Rightarrow> string \<Rightarrow> string" where
  "str_or s d = (if s = [] then d else s)"

text \<open>
  \<open>n.toString()\<close> for a natural number below \<open>10 ^ 21\<close>, where the result is the plain
  decimal numeral.
\<close>

fun toString :: "nat \<Rightarrow> string" where
  "toString n =
     (if n < 10 then [''0123456789'' ! n]
      else toString (n div 10) @ [''0123456789'' ! (n mod 10)])"

declare toString.simps [simp del]

section \<open>The key-value store\<close>

text \<open>
  What \<open>AsyncStorage\<close> holds under a key is a text. A text is modelled by what
  \<open>JSON.parse\<close> makes of it: the value it denotes, or \<open>Malformed\<close> for any text that
  is not JSON. \<open>getItem\<close> and \<open>setItem\<close> may reject; one operation of the utility
  reads at most once and writes at most once, so one flag for each covers every way a
  single operation can meet a failing store.
\<close>

datatype json_text = Malformed | Json jval

record store =
  items :: "string \<Rightarrow> json_text option"
  getItem_rejects :: bool
  setItem_rejects :: bool

text \<open>
  An \<open>async\<close> function: run on a store, it settles as rejected (\<open>Inl\<close>) or fulfilled
  (\<open>Inr\<close>) and leaves a store behind. Each operation runs to completion before the
  next one starts; interleavings of two operations at their \<open>await\<close>s are not modelled,
  and neither is \<open>console.error\<close>, which only logs.
\<close>

type_synonym 'a async = "store \<Rightarrow> (error + 'a) \<times> store"

definition resolve :: "'a \<Rightarrow> 'a async" where
  "resolve x st = (Inr x, st)"

definition reject :: "error \<Rightarrow> 'a async" where
  "reject e st = (Inl e, st)"

text \<open>A synchronous step that returns or throws.\<close>

definition lift :: "error + 'a \<Rightarrow> 'a async" where
  "lift r st = (r, st)"

definition await :: "'a async \<Rightarrow> ('a \<Rightarrow> 'b async) \<Rightarrow> 'b async" where
  "await m f st = (case m st of (Inl e, st') \<Rightarrow> (Inl e, st') | (Inr x, st') \<Rightarrow> f x st')"

definition try_catch :: "'a async \<Rightarrow> (error \<Rightarrow> 'a async) \<Rightarrow> 'a async" where
  "try_catch body handler st =
     (case body st of (Inl e, st') \<Rightarrow> handler e st' | (Inr x, st') \<Rightarrow> (Inr x, st'))"

definition getItem :: "string \<Rightarrow> json_text option async" where
  "getItem key st =
     (if getItem_rejects st then (Inl StorageError, st) else (Inr (items st key), st))"

definition setItem :: "string \<Rightarrow> json_text \<Rightarrow> unit async" where
  "setItem key val st =
     (if setItem_rejects st then (Inl StorageError, st)
      else (Inr (), st\<lparr>items := (items st)(key \<mapsto> val)\<rparr>))"

definition JSON_parse :: "json_text \<Rightarrow> error + jval" where
  "JSON_parse t = (case t of Malformed \<Rightarrow> Inl SyntaxError | Json v \<Rightarrow> Inr v)"

text \<open>
  The text that \<open>JSON.stringify\<close> writes denotes the value again. That holds for the
  values of this model as long as their numbers are finite; the Number \<open>Infinity\<close>,
  which \<open>parseInt\<close> returns only for a text of more than 308 digits, would be written
  as \<open>null\<close> and is outside the model of the store.
\<close>

definition JSON_stringify :: "jval \<Rightarrow> json_text" where
  "JSON_stringify v = Json v"

section \<open>Array methods, as the utility calls them\<close>

text \<open>First position of an element strictly equal to \<open>x\<close>, or \<open>-1\<close>.\<close>

fun array_indexOf :: "jval list \<Rightarrow> jval \<Rightarrow> int" where
  "array_indexOf [] x = - 1"
| "array_indexOf (y # ys) x =
     (if strict_eq y x then 0
      else (let i = array_indexOf ys x in if i > - 1 then i + 1 else - 1))"

text \<open>First position at which \<open>t\<close> occurs in \<open>s\<close>, or \<open>-1\<close>.\<close>

fun string_indexOf :: "string \<Rightarrow> string \<Rightarrow> int" where
  "string_indexOf [] t = (if t = [] then 0 else - 1)"
| "string_indexOf (c # cs) t =
     (if prefix t (c # cs) then 0
      else (let i = string_indexOf cs t in if i > - 1 then i + 1 else - 1))"

text \<open>
  \<open>receiver.indexOf(recipeId)\<close> with a string for \<open>recipeId\<close>: arrays and strings have
  the method, nothing else has.
\<close>

definition indexOf :: "jval \<Rightarrow> string \<Rightarrow> error + int" where
  "indexOf receiver recipeId =
     (case receiver of
        JArr xs \<Rightarrow> Inr (array_indexOf xs (JStr recipeId))
      | JStr s \<Rightarrow> Inr (string_indexOf s recipeId)
      | _ \<Rightarrow> Inl TypeError)"

text \<open>\<open>receiver.splice(index, 1)\<close>; the receiver afterwards. Only arrays have the method.\<close>

definition splice1 :: "jval \<Rightarrow> int \<Rightarrow> error + jval" where
  "splice1 receiver index =
     (case receiver of
        JArr xs \<Rightarrow> Inr (JArr (take (nat index) xs @ drop (Suc (nat index)) xs))
      | _ \<Rightarrow> Inl TypeError)"

text \<open>\<open>receiver.push(x)\<close>; the receiver afterwards. Only arrays have the method.\<close>

definition push :: "jval \<Rightarrow> jval \<Rightarrow> error + jval" where
  "push receiver x =
     (case receiver of JArr xs \<Rightarrow> Inr (JArr (xs @ [x])) | _ \<Rightarrow> Inl TypeError)"

text \<open>\<open>Array.prototype.findIndex\<close> with a callback that may raise.\<close>

fun array_findIndex :: "('a \<Rightarrow> error + bool) \<Rightarrow> 'a list \<Rightarrow> error + int" where
  "array_findIndex p [] = Inr (- 1)"
| "array_findIndex p (x # xs) =
     (case p x of
        Inl e \<Rightarrow> Inl e
      | Inr True \<Rightarrow> Inr 0
      | Inr False \<Rightarrow>
          (case array_findIndex p xs of
             Inl e \<Rightarrow> Inl e
           | Inr i \<Rightarrow> Inr (if i > - 1 then i + 1 else - 1)))"

definition findIndex :: "jval \<Rightarrow> (jval \<Rightarrow> error + bool) \<Rightarrow> error + int" where
  "findIndex receiver p =
     (case receiver of JArr xs \<Rightarrow> array_findIndex p xs | _ \<Rightarrow> Inl TypeError)"

definition filter_method :: "jval \<Rightarrow> (jval \<Rightarrow> error + bool) \<Rightarrow> error + jval" where
  "filter_method receiver p =
     (case receiver of
        JArr xs \<Rightarrow> (case filter_js p xs of Inl e \<Rightarrow> Inl e | Inr ys \<Rightarrow> Inr (JArr ys))
      | _ \<Rightarrow> Inl TypeError)"

text \<open>
  The own enumerable properties that \<open>{...v}\<close> copies: those of an object; the indexed
  characters of a string and the indexed elements of an array; none of a number, a
  boolean or \<open>null\<close>.
\<close>

definition spread_props :: "jval \<Rightarrow> obj" where
  "spread_props v =
     (case v of
        JObj props \<Rightarrow> props
      | JStr s \<Rightarrow> map_of (zip (map toString [0..<length s]) (map (\<lambda>c. JStr [c]) s))
      | JArr xs \<Rightarrow> map_of (zip (map toString [0..<length xs]) xs)
      | _ \<Rightarrow> Map.empty)"

section \<open>The persistence utility\<close>

definition FAVORITES_KEY :: string where
  "FAVORITES_KEY = ''@foodie_favorites''"

definition MY_RECIPES_KEY :: string where
  "MY_RECIPES_KEY = ''@foodie_my_recipes''"

definition getFavorites :: "jval async" where
  "getFavorites =
     try_catch
       (await (getItem FAVORITES_KEY) (\<lambda>json.
          case json of
            Some t \<Rightarrow> lift (JSON_parse t)
          | None \<Rightarrow> resolve (JArr [])))
       (\<lambda>error. resolve (JArr []))"

definition saveFavorites :: "jval \<Rightarrow> unit async" where
  "saveFavorites favorites =
     try_catch
       (setItem FAVORITES_KEY (JSON_stringify favorites))
       (\<lambda>error. resolve ())"

definition toggleFavorite :: "string \<Rightarrow> jval async" where
  "toggleFavorite recipeId =
     try_catch
       (await getFavorites (\<lambda>favorites.
        await (lift (indexOf favorites recipeId)) (\<lambda>index.
        await (lift (if index > - 1 then splice1 favorites index
                     else push favorites (JStr recipeId))) (\<lambda>favorites'.
        await (saveFavorites favorites') (\<lambda>_.
        resolve favorites')))))
       (\<lambda>error. resolve (JArr []))"

definition getMyRecipes :: "jval async" where
  "getMyRecipes =
     try_catch
       (await (getItem MY_RECIPES_KEY) (\<lambda>json.
          case json of
            Some t \<Rightarrow> lift (JSON_parse t)
          | None \<Rightarrow> resolve (JArr [])))
       (\<lambda>error. resolve (JArr []))"

definition saveMyRecipes :: "jval \<Rightarrow> unit async" where
  "saveMyRecipes recipes =
     try_catch
       (setItem MY_RECIPES_KEY (JSON_stringify recipes))
       (\<lambda>error. resolve ())"

text \<open>
  \<open>now\<close> is what \<open>Date.now()\<close> reads: the milliseconds since the epoch, a natural number
  for any clock set after 1970. The result is the new record, or \<open>None\<close> for \<open>null\<close>.
\<close>

definition addMyRecipe :: "obj \<Rightarrow> nat \<Rightarrow> obj option async" where
  "addMyRecipe recipe now =
     try_catch
       (await getMyRecipes (\<lambda>recipes.
        let newRecipe = recipe(''id'' \<mapsto> JStr (''user_'' @ toString now),
                               ''category'' \<mapsto> JStr ''myfood'')
        in await (lift (push recipes (JObj newRecipe))) (\<lambda>recipes'.
           await (saveMyRecipes recipes') (\<lambda>_.
           resolve (Some newRecipe)))))
       (\<lambda>error. resolve None)"

text \<open>
  The assignment \<open>recipes[index] = { ...recipes[index], ...updatedRecipe }\<close> is reached
  only after \<open>findIndex\<close> has returned a position, so with an array and a position
  inside it. The spread of the second object writes every own property of
  \<open>updatedRecipe\<close> over the properties of the first, also one that holds
  \<open>undefined\<close>. The merged object lives until \<open>saveMyRecipes\<close> writes the array:
  the record that reaches the store has the properties of the merged object that hold a
  value.
\<close>

definition updateMyRecipe :: "literal \<Rightarrow> unit async" where
  "updateMyRecipe updatedRecipe =
     try_catch
       (await getMyRecipes (\<lambda>recipes.
        await (lift (findIndex recipes (\<lambda>r.
                 case get_property r ''id'' of
                   Inl e \<Rightarrow> Inl e
                 | Inr i \<Rightarrow>
                     Inr (strict_eq_opt i (defined_props updatedRecipe ''id''))))) (\<lambda>index.
        if index > - 1 then
          (case recipes of
             JArr rs \<Rightarrow>
               saveMyRecipes
                 (JArr (rs[nat index :=
                    JObj (defined_props
                            (own_props (spread_props (rs ! nat index)) ++ updatedRecipe))]))
           | _ \<Rightarrow> reject TypeError)
        else resolve ())))
       (\<lambda>error. resolve ())"

definition deleteMyRecipe :: "string \<Rightarrow> unit async" where
  "deleteMyRecipe recipeId =
     try_catch
       (await getMyRecipes (\<lambda>recipes.
        await (lift (filter_method recipes (\<lambda>r.
                 case get_property r ''id'' of
                   Inl e \<Rightarrow> Inl e
                 | Inr i \<Rightarrow> Inr (\<not> strict_eq_opt i (Some (JStr recipeId)))))) (\<lambda>filtered.
        saveMyRecipes filtered)))
       (\<lambda>error. resolve ())"

section \<open>The Add and Edit forms\<close>

record form =
  name :: string
  imageUrl :: string
  prepTime :: string
  servings :: string
  calories :: string
  difficulty :: string
  ingredients :: string
  instructions :: string

definition PLACEHOLDER_IMAGE :: string where
  "PLACEHOLDER_IMAGE = ''https://images.unsplash.com/photo-1495521821757-a1efb6729352?w=400''"

text \<open>
  The chain \<open>text.split('\n').map((line) => line.trim()).filter((line) => line.length > 0)\<close>
  that both forms apply to the ingredients and to the instructions.
\<close>

definition splitLines :: "string \<Rightarrow> string list" where
  "splitLines text = filter (\<lambda>line. length line > 0) (map trim (split_str CHR 0x0A text))"

text \<open>The object literal \<open>newRecipe\<close> of \<open>handleSave\<close> on the Add screen.\<close>

definition AddRecipeScreen_newRecipe :: "form \<Rightarrow> obj" where
  "AddRecipeScreen_newRecipe f =
     [''name'' \<mapsto> JStr (trim (name f)),
      ''image'' \<mapsto> JStr (str_or (trim (imageUrl f)) PLACEHOLDER_IMAGE),
      ''prepTime'' \<mapsto> JStr (str_or (trim (prepTime f)) ''N/A''),
      ''servings'' \<mapsto> JNum (num_or (parseInt10 (servings f)) 1),
      ''calories'' \<mapsto> JNum (num_or (parseInt10 (calories f)) 0),
      ''difficulty'' \<mapsto> JStr (str_or (trim (difficulty f)) ''Easy''),
      ''ingredients'' \<mapsto> JArr (map JStr (splitLines (ingredients f))),
      ''instructions'' \<mapsto> JArr (map JStr (splitLines (instructions f)))]"

text \<open>
  The object literal \<open>updatedRecipe\<close> of \<open>handleSave\<close> on the Edit screen, as the
  values its properties hold; \<open>recipe\<close> is the route parameter (the empty object when
  there is none). Every property of the literal holds a value except \<open>id\<close>, which
  holds \<open>undefined\<close> when \<open>recipe.id\<close> is.
\<close>

definition EditRecipeScreen_updatedRecipe :: "obj \<Rightarrow> form \<Rightarrow> obj" where
  "EditRecipeScreen_updatedRecipe recipe f =
     [''name'' \<mapsto> JStr (trim (name f)),
      ''prepTime'' \<mapsto> JStr (str_or (trim (prepTime f)) ''N/A''),
      ''servings'' \<mapsto> JNum (num_or (parseInt10 (servings f)) 1),
      ''calories'' \<mapsto> JNum (num_or (parseInt10 (calories f)) 0),
      ''difficulty'' \<mapsto> JStr (str_or (trim (difficulty f)) ''Easy''),
      ''category'' \<mapsto> JStr ''myfood'',
      ''ingredients'' \<mapsto> JArr (map JStr (splitLines (ingredients f))),
      ''instructions'' \<mapsto> JArr (map JStr (splitLines (instructions f)))]
     (''id'' := recipe ''id'',
      ''image'' := js_or (js_or (Some (JStr (trim (imageUrl f)))) (recipe ''image''))
                     (Some (JStr '''')))"

text \<open>
  \<open>handleSave\<close> of the two screens: the validation of the name, the call of the
  utility, and the dialog that \<open>Alert.alert\<close> then shows (title and message).
\<close>

datatype alert = Alert string string

definition AddRecipeScreen_handleSave :: "form \<Rightarrow> nat \<Rightarrow> alert async" where
  "AddRecipeScreen_handleSave f now =
     (if trim (name f) = [] then
        resolve (Alert ''Missing Information'' ''Please enter a recipe name.'')
      else
        await (addMyRecipe (AddRecipeScreen_newRecipe f) now) (\<lambda>saved.
          case saved of
            Some _ \<Rightarrow> resolve (Alert ''Success'' ''Recipe saved successfully!'')
          | None \<Rightarrow> resolve (Alert ''Error'' ''Failed to save recipe. Please try again.'')))"

definition EditRecipeScreen_handleSave :: "obj \<Rightarrow> form \<Rightarrow> alert async" where
  "EditRecipeScreen_handleSave recipe f =
     (if trim (name f) = [] then
        resolve (Alert ''Missing Information'' ''Please enter a recipe name.'')
      else
        await (updateMyRecipe
                 ((own_props (EditRecipeScreen_updatedRecipe recipe f))
                  (''id'' \<mapsto> (case recipe ''id'' of
                                 None \<Rightarrow> Undefined
                               | Some v \<Rightarrow> Defined v)))) (\<lambda>_.
          resolve (Alert ''Success'' ''Recipe updated successfully!'')))"

section \<open>The main feed\<close>

text \<open>
  \<open>filteredRecipes\<close> of the main feed. \<open>allRecipes\<close> is the catalogue followed by what
  \<open>getMyRecipes\<close> returned, so its members are whatever the store held.
\<close>

definition filteredRecipes :: "string \<Rightarrow> jval list \<Rightarrow> error + jval list" where
  "filteredRecipes selectedCategory allRecipes =
     (if selectedCategory = ''all'' then
        filter_js (\<lambda>r. case get_property r ''category'' of
                          Inl e \<Rightarrow> Inl e
                        | Inr c \<Rightarrow> Inr (\<not> strict_eq_opt c (Some (JStr ''myfood''))))
          allRecipes
      else
        filter_js (\<lambda>r. case get_property r ''category'' of
                          Inl e \<Rightarrow> Inl e
                        | Inr c \<Rightarrow> Inr (strict_eq_opt c (Some (JStr selectedCategory))))
          allRecipes)"

section \<open>Sample data\<close>

definition sample_favorites_store :: store where
  "sample_favorites_store =
     \<lparr>items = [FAVORITES_KEY \<mapsto> Json (JArr [JStr ''1'', JStr ''7''])],
      getItem_rejects = False, setItem_rejects = False\<rparr>"

definition zero_form :: form where
  "zero_form =
     \<lparr>name = ''Tacos'', imageUrl = [], prepTime = ''10 min'', servings = ''0'',
      calories = ''0'', difficulty = [], ingredients = [], instructions = []\<rparr>"

definition sample_form :: form where
  "sample_form =
     \<lparr>name = ''Tacos'', imageUrl = [], prepTime = ''10 min'', servings = ''abc'',
      calories = [], difficulty = [], ingredients = [], instructions = []\<rparr>"


definition tacos :: obj where
  "tacos = [''name'' \<mapsto> JStr ''Tacos'', ''prepTime'' \<mapsto> JStr ''10 min'',
            ''servings'' \<mapsto> JNum 2, ''category'' \<mapsto> JStr ''dinner'']"

definition user_1 :: obj where
  "user_1 = [''id'' \<mapsto> JStr ''user_1'', ''name'' \<mapsto> JStr ''A'', ''calories'' \<mapsto> JNum 100,
             ''category'' \<mapsto> JStr ''myfood'']"

definition user_2 :: obj where
  "user_2 = [''id'' \<mapsto> JStr ''user_2'', ''name'' \<mapsto> JStr ''B'', ''calories'' \<mapsto> JNum 250,
             ''category'' \<mapsto> JStr ''myfood'']"

definition user_3 :: obj where
  "user_3 = [''id'' \<mapsto> JStr ''user_3'', ''name'' \<mapsto> JStr ''C'', ''calories'' \<mapsto> JNum 40,
             ''category'' \<mapsto> JStr ''myfood'']"

definition three_recipes_store :: store where
  "three_recipes_store =
     \<lparr>items = [MY_RECIPES_KEY \<mapsto> Json (JArr [JObj user_1, JObj user_2, JObj user_3])],
      getItem_rejects = False, setItem_rejects = False\<rparr>"

definition calories_patch :: literal where
  "calories_patch = [''id'' \<mapsto> Defined (JStr ''user_1''), ''calories'' \<mapsto> Defined (JNum 200)]"

definition name_undefined_patch :: literal where
  "name_undefined_patch =
     [''id'' \<mapsto> Defined (JStr ''user_1''), ''name'' \<mapsto> Undefined,
      ''calories'' \<mapsto> Defined (JNum 200)]"

definition duplicate_ids_store :: store where
  "duplicate_ids_store =
     \<lparr>items = [MY_RECIPES_KEY \<mapsto> Json (JArr [JObj user_1, JObj user_2, JObj (user_3 ++ [''id'' \<mapsto> JStr ''user_1''])])],
      getItem_rejects = False, setItem_rejects = False\<rparr>"

definition breakfast_1 :: obj where
  "breakfast_1 = [''id'' \<mapsto> JStr ''1'', ''name'' \<mapsto> JStr ''Pancakes'',
                  ''category'' \<mapsto> JStr ''breakfast'']"

definition lunch_2 :: obj where
  "lunch_2 = [''id'' \<mapsto> JStr ''2'', ''name'' \<mapsto> JStr ''Wrap'', ''category'' \<mapsto> JStr ''lunch'']"

definition unreadable_store :: store where
  "unreadable_store =
     \<lparr>items = [FAVORITES_KEY \<mapsto> Json (JArr [JStr ''1'', JStr ''7'']),
               MY_RECIPES_KEY \<mapsto> Json (JArr [JObj user_1, JObj user_2, JObj user_3])],
      getItem_rejects = True, setItem_rejects = False\<rparr>"

definition unwritable_store :: store where
  "unwritable_store =
     \<lparr>items = [FAVORITES_KEY \<mapsto> Json (JArr [JStr ''1'', JStr ''7''])],
      getItem_rejects = False, setItem_rejects = True\<rparr>"

definition not_an_array_store :: store where
  "not_an_array_store =
     \<lparr>items = [FAVORITES_KEY \<mapsto> Json (JStr ''37''), MY_RECIPES_KEY \<mapsto> Json JNull],
      getItem_rejects = False, setItem_rejects = False\<rparr>"

section \<open>What the getters return and what the savers leave behind\<close>

lemma getFavorites_eq:
  "getFavorites st =
     (Inr (if getItem_rejects st then JArr []
           else (case items st FAVORITES_KEY of
                   None \<Rightarrow> JArr [] | Some Malformed \<Rightarrow> JArr [] | Some (Json v) \<Rightarrow> v)), st)"
  by (simp add: getFavorites_def try_catch_def await_def getItem_def lift_def resolve_def
      JSON_parse_def split: option.splits json_text.splits)

lemma getMyRecipes_eq:
  "getMyRecipes st =
     (Inr (if getItem_rejects st then JArr []
           else (case items st MY_RECIPES_KEY of
                   None \<Rightarrow> JArr [] | Some Malformed \<Rightarrow> JArr [] | Some (Json v) \<Rightarrow> v)), st)"
  by (simp add: getMyRecipes_def try_catch_def await_def getItem_def lift_def resolve_def
      JSON_parse_def split: option.splits json_text.splits)

lemma saveFavorites_eq:
  "saveFavorites v st =
     (Inr (), if setItem_rejects st then st
              else st\<lparr>items := (items st)(FAVORITES_KEY \<mapsto> Json v)\<rparr>)"
  by (simp add: saveFavorites_def try_catch_def setItem_def resolve_def JSON_stringify_def)

lemma saveMyRecipes_eq:
  "saveMyRecipes v st =
     (Inr (), if setItem_rejects st then st
              else st\<lparr>items := (items st)(MY_RECIPES_KEY \<mapsto> Json v)\<rparr>)"
  by (simp add: saveMyRecipes_def try_catch_def setItem_def resolve_def JSON_stringify_def)

lemma strict_eq_JStr: "strict_eq y (JStr x) = (y = JStr x)"
  by (cases y) auto

section \<open>Favorites\<close>

lemma array_indexOf_absent: "JStr x \<notin> set xs \<Longrightarrow> array_indexOf xs (JStr x) = - 1"
  by (induction xs) (auto simp: strict_eq_JStr Let_def)

lemma array_indexOf_last:
  "JStr x \<notin> set xs \<Longrightarrow> array_indexOf (xs @ [JStr x]) (JStr x) = int (length xs)"
  by (induction xs) (auto simp: strict_eq_JStr Let_def)

lemma toggleFavorite_absent:
  assumes "\<not> setItem_rejects st"
    and "fst (getFavorites st) = Inr (JArr favs)"
    and "JStr x \<notin> set favs"
  shows "toggleFavorite x st =
     (Inr (JArr (favs @ [JStr x])),
      st\<lparr>items := (items st)(FAVORITES_KEY \<mapsto> Json (JArr (favs @ [JStr x])))\<rparr>)"
  using assms
  by (simp add: toggleFavorite_def try_catch_def await_def lift_def resolve_def
      getFavorites_eq saveFavorites_eq indexOf_def push_def array_indexOf_absent
      split: if_splits option.splits json_text.splits)

lemma toggleFavorite_last:
  assumes "\<not> setItem_rejects st"
    and "fst (getFavorites st) = Inr (JArr (favs @ [JStr x]))"
    and "JStr x \<notin> set favs"
  shows "toggleFavorite x st =
     (Inr (JArr favs), st\<lparr>items := (items st)(FAVORITES_KEY \<mapsto> Json (JArr favs))\<rparr>)"
  using assms
  by (simp add: toggleFavorite_def try_catch_def await_def lift_def resolve_def
      getFavorites_eq saveFavorites_eq indexOf_def splice1_def array_indexOf_last
      split: if_splits option.splits json_text.splits)

text \<open>
  C1. On a store that reads and writes, with \<open>favs\<close> the favorites that \<open>getFavorites\<close>
  returns and \<open>x\<close> not among them: \<open>toggleFavorite x\<close> returns \<open>favs\<close> with \<open>x\<close> appended
  and that is what the store then holds; \<open>toggleFavorite x\<close> once more returns
  \<open>favs\<close> itself, every other member in place and in its old order, and the store holds
  \<open>favs\<close> again.
\<close>

theorem toggleFavorite_twice:
  assumes "\<not> getItem_rejects st" and "\<not> setItem_rejects st"
    and "fst (getFavorites st) = Inr (JArr favs)"
    and "JStr x \<notin> set favs"
  shows "fst (toggleFavorite x st) = Inr (JArr (favs @ [JStr x]))
       \<and> fst (getFavorites (snd (toggleFavorite x st))) = Inr (JArr (favs @ [JStr x]))
       \<and> fst (toggleFavorite x (snd (toggleFavorite x st))) = Inr (JArr favs)
       \<and> fst (getFavorites (snd (toggleFavorite x (snd (toggleFavorite x st))))) = Inr (JArr favs)"
proof -
  let ?st1 = "st\<lparr>items := (items st)(FAVORITES_KEY \<mapsto> Json (JArr (favs @ [JStr x])))\<rparr>"
  let ?st2 = "?st1\<lparr>items := (items ?st1)(FAVORITES_KEY \<mapsto> Json (JArr favs))\<rparr>"
  have t1: "toggleFavorite x st = (Inr (JArr (favs @ [JStr x])), ?st1)"
    using assms by (simp add: toggleFavorite_absent)
  have g1: "fst (getFavorites ?st1) = Inr (JArr (favs @ [JStr x]))"
    using assms by (simp add: getFavorites_eq)
  have w1: "\<not> setItem_rejects ?st1"
    using assms by simp
  have t2: "toggleFavorite x ?st1 = (Inr (JArr favs), ?st2)"
    by (rule toggleFavorite_last [OF w1 g1 assms(4)])
  have g2: "fst (getFavorites ?st2) = Inr (JArr favs)"
    using assms by (simp add: getFavorites_eq)
  show ?thesis
    unfolding t1 using g1 t2 g2 by simp
qed

theorem toggleFavorite_twice_witness:
  "\<not> getItem_rejects sample_favorites_store
   \<and> \<not> setItem_rejects sample_favorites_store
   \<and> fst (getFavorites sample_favorites_store) = Inr (JArr [JStr ''1'', JStr ''7''])
   \<and> JStr ''3'' \<notin> set [JStr ''1'', JStr ''7'']
   \<and> fst (toggleFavorite ''3'' sample_favorites_store)
       = Inr (JArr [JStr ''1'', JStr ''7'', JStr ''3''])
   \<and> fst (toggleFavorite ''3'' (snd (toggleFavorite ''3'' sample_favorites_store)))
       = Inr (JArr [JStr ''1'', JStr ''7''])"
  using toggleFavorite_twice [of sample_favorites_store "[JStr ''1'', JStr ''7'']" "''3''"]
  by (simp add: getFavorites_eq sample_favorites_store_def)

section \<open>Splitting and trimming the text fields\<close>

lemma split_str_nonempty: "split_str sep s \<noteq> []"
  by (induction s) (auto split: list.splits)

lemma join_split_str: "join_str sep (split_str sep s) = s"
proof (induction s)
  case Nil
  show ?case by simp
next
  case (Cons c cs)
  obtain p ps where eq: "split_str sep cs = p # ps"
    using split_str_nonempty [of sep cs] by (cases "split_str sep cs") auto
  show ?case
  proof (cases "c = sep")
    case True
    with Cons eq show ?thesis by simp
  next
    case False
    with Cons eq show ?thesis by (cases ps) auto
  qed
qed

lemma split_str_no_sep: "l \<in> set (split_str sep s) \<Longrightarrow> sep \<notin> set l"
  by (induction s arbitrary: l) (auto split: list.splits if_splits)

lemma last_trim:
  assumes "trim s \<noteq> []"
  shows "\<not> isWhiteSpace (last (trim s))"
proof -
  let ?u = "dropWhile isWhiteSpace (rev (dropWhile isWhiteSpace s))"
  have u: "?u \<noteq> []" using assms by (simp add: trim_def)
  have "last (trim s) = hd ?u" using u by (simp add: trim_def last_rev)
  moreover have "\<not> isWhiteSpace (hd ?u)" using u by (rule hd_dropWhile)
  ultimately show ?thesis by simp
qed

lemma hd_trim:
  assumes "trim s \<noteq> []"
  shows "\<not> isWhiteSpace (hd (trim s))"
proof -
  let ?t = "dropWhile isWhiteSpace s"
  let ?u = "dropWhile isWhiteSpace (rev ?t)"
  have u: "?u \<noteq> []" using assms by (simp add: trim_def)
  have "?t = [] \<Longrightarrow> ?u = []" by (simp only: rev.simps dropWhile.simps)
  with u have t: "?t \<noteq> []" by blast
  have "rev ?t = takeWhile isWhiteSpace (rev ?t) @ ?u" by simp
  then have "last (rev ?t) = last ?u" using u by (metis last_appendR)
  then have "last ?u = hd ?t" using t by (simp add: last_rev)
  moreover have "hd (trim s) = last ?u" using u by (simp add: trim_def hd_rev)
  moreover have "\<not> isWhiteSpace (hd ?t)" using t by (rule hd_dropWhile)
  ultimately show ?thesis by simp
qed

lemma parseInt10_blank:
  assumes "\<forall>c\<in>set s. isWhiteSpace c"
  shows "parseInt10 s = None"
proof -
  have d: "dropWhile isWhiteSpace s = []" using assms by simp
  show ?thesis unfolding parseInt10_def d by simp
qed

text \<open>
  C7. Both forms store, for the ingredients and for the instructions, the lines of the
  text: the text is cut at every line feed (the pieces joined by line feeds give the text
  back, and no piece holds a line feed), every piece is trimmed, and the pieces that are
  empty after trimming are dropped, so every stored line is non-empty and neither starts
  nor ends with white space. The five-line example text gives exactly \<open>flour\<close>,
  \<open>2 eggs\<close>, \<open>milk\<close>, and that is what the Add form puts into the record.
\<close>

theorem splitLines_spec:
  "AddRecipeScreen_newRecipe f ''ingredients'' = Some (JArr (map JStr (splitLines (ingredients f))))
   \<and> AddRecipeScreen_newRecipe f ''instructions'' = Some (JArr (map JStr (splitLines (instructions f))))
   \<and> EditRecipeScreen_updatedRecipe recipe f ''ingredients''
       = Some (JArr (map JStr (splitLines (ingredients f))))
   \<and> EditRecipeScreen_updatedRecipe recipe f ''instructions''
       = Some (JArr (map JStr (splitLines (instructions f))))
   \<and> splitLines t = filter (\<lambda>line. line \<noteq> []) (map trim (split_str CHR 0x0A t))
   \<and> join_str CHR 0x0A (split_str CHR 0x0A t) = t
   \<and> (\<forall>piece\<in>set (split_str CHR 0x0A t). CHR 0x0A \<notin> set piece)
   \<and> (\<forall>line\<in>set (splitLines t).
         line \<noteq> [] \<and> \<not> isWhiteSpace (hd line) \<and> \<not> isWhiteSpace (last line))
   \<and> splitLines ''flour\<newline>\<newline>2 eggs\<newline>  \<newline>milk'' = [''flour'', ''2 eggs'', ''milk'']
   \<and> AddRecipeScreen_newRecipe
         (f\<lparr>ingredients := ''flour\<newline>\<newline>2 eggs\<newline>  \<newline>milk''\<rparr>) ''ingredients''
       = Some (JArr [JStr ''flour'', JStr ''2 eggs'', JStr ''milk''])"
proof -
  have builders:
    "AddRecipeScreen_newRecipe f ''ingredients'' = Some (JArr (map JStr (splitLines (ingredients f))))"
    "AddRecipeScreen_newRecipe f ''instructions'' = Some (JArr (map JStr (splitLines (instructions f))))"
    "EditRecipeScreen_updatedRecipe recipe f ''ingredients''
       = Some (JArr (map JStr (splitLines (ingredients f))))"
    "EditRecipeScreen_updatedRecipe recipe f ''instructions''
       = Some (JArr (map JStr (splitLines (instructions f))))"
    by (simp_all add: AddRecipeScreen_newRecipe_def EditRecipeScreen_updatedRecipe_def)
  have chain: "splitLines t = filter (\<lambda>line. line \<noteq> []) (map trim (split_str CHR 0x0A t))"
    by (simp add: splitLines_def)
  have pieces: "\<forall>piece\<in>set (split_str CHR 0x0A t). CHR 0x0A \<notin> set piece"
    using split_str_no_sep by blast
  have kept: "\<forall>line\<in>set (splitLines t).
         line \<noteq> [] \<and> \<not> isWhiteSpace (hd line) \<and> \<not> isWhiteSpace (last line)"
    using hd_trim last_trim by (auto simp: splitLines_def)
  have example:
    "splitLines ''flour\<newline>\<newline>2 eggs\<newline>  \<newline>milk'' = [''flour'', ''2 eggs'', ''milk'']"
    by (simp add: splitLines_def trim_def isWhiteSpace_def)
  have stored: "AddRecipeScreen_newRecipe
         (f\<lparr>ingredients := ''flour\<newline>\<newline>2 eggs\<newline>  \<newline>milk''\<rparr>) ''ingredients''
       = Some (JArr [JStr ''flour'', JStr ''2 eggs'', JStr ''milk''])"
    using example by (simp add: AddRecipeScreen_newRecipe_def)
  from builders chain join_split_str pieces kept example stored show ?thesis by blast
qed

theorem splitLines_spec_witness:
  "splitLines ''  a \<newline>\<newline>b'' = [''a'', ''b'']
   \<and> join_str CHR 0x0A (split_str CHR 0x0A ''  a \<newline>\<newline>b'') = ''  a \<newline>\<newline>b''
   \<and> CHR 0x0A \<notin> set ''  a ''
   \<and> \<not> isWhiteSpace (hd ''a'') \<and> \<not> isWhiteSpace (last ''b'')"
  using splitLines_spec [of sample_form Map.empty "''  a \<newline>\<newline>b''"]
  by (simp add: trim_def isWhiteSpace_def)

section \<open>The numeric fields\<close>

lemmas parseInt10_eval = parseInt10_def isWhiteSpace_def isDigit_def digitsValue_def digitValue_def

text \<open>
  C8, as amended. On the Add form a servings text that \<open>parseInt\<close> rejects (a blank
  text, \<open>abc\<close>) is stored as 1 and such a calories text as 0; a text that parses is
  stored as the parsed integer, except that servings parsing to 0 is stored as 1.
\<close>

theorem numeric_fallback:
  "(parseInt10 (servings f) = None \<longrightarrow> AddRecipeScreen_newRecipe f ''servings'' = Some (JNum 1))
   \<and> (parseInt10 (calories f) = None \<longrightarrow> AddRecipeScreen_newRecipe f ''calories'' = Some (JNum 0))
   \<and> (parseInt10 (servings f) = Some n \<longrightarrow>
        AddRecipeScreen_newRecipe f ''servings'' = Some (JNum (if n = 0 then 1 else n)))
   \<and> (parseInt10 (calories f) = Some m \<longrightarrow>
        AddRecipeScreen_newRecipe f ''calories'' = Some (JNum m))
   \<and> ((\<forall>c\<in>set s. isWhiteSpace c) \<longrightarrow> parseInt10 s = None)
   \<and> parseInt10 ''abc'' = None"
proof -
  have "parseInt10 ''abc'' = None"
    by (simp add: parseInt10_eval)
  then show ?thesis
    using parseInt10_blank [of s]
    by (simp add: AddRecipeScreen_newRecipe_def num_or_def)
qed

theorem numeric_fallback_witness:
  "parseInt10 (servings sample_form) = None
   \<and> AddRecipeScreen_newRecipe sample_form ''servings'' = Some (JNum 1)
   \<and> parseInt10 (calories sample_form) = None
   \<and> AddRecipeScreen_newRecipe sample_form ''calories'' = Some (JNum 0)
   \<and> parseInt10 (servings (sample_form\<lparr>servings := ''4'', calories := ''250''\<rparr>)) = Some 4
   \<and> AddRecipeScreen_newRecipe (sample_form\<lparr>servings := ''4'', calories := ''250''\<rparr>) ''servings''
       = Some (JNum 4)
   \<and> AddRecipeScreen_newRecipe (sample_form\<lparr>servings := ''4'', calories := ''250''\<rparr>) ''calories''
       = Some (JNum 250)
   \<and> parseInt10 ''  '' = None"
  using numeric_fallback [of sample_form 4 250 "''  ''"]
    numeric_fallback [of "sample_form\<lparr>servings := ''4'', calories := ''250''\<rparr>" 4 250 "''  ''"]
  by (simp add: sample_form_def parseInt10_eval)

theorem servings_zero_counterexample:
  "parseInt10 (servings zero_form) = Some 0
   \<and> AddRecipeScreen_newRecipe zero_form ''servings'' \<noteq> Some (JNum 0)"
  by (simp add: zero_form_def AddRecipeScreen_newRecipe_def num_or_def parseInt10_eval)

text \<open>
  C10. Zero is falsy: on both forms the servings text \<open>0\<close> parses to 0 and is stored
  as 1, as is every servings text that parses to 0, while the calories text \<open>0\<close> is
  stored as 0.
\<close>

theorem zero_is_falsy:
  "parseInt10 ''0'' = Some 0
   \<and> AddRecipeScreen_newRecipe (f\<lparr>servings := ''0'', calories := ''0''\<rparr>) ''servings'' = Some (JNum 1)
   \<and> AddRecipeScreen_newRecipe (f\<lparr>servings := ''0'', calories := ''0''\<rparr>) ''calories'' = Some (JNum 0)
   \<and> EditRecipeScreen_updatedRecipe recipe (f\<lparr>servings := ''0'', calories := ''0''\<rparr>) ''servings''
       = Some (JNum 1)
   \<and> EditRecipeScreen_updatedRecipe recipe (f\<lparr>servings := ''0'', calories := ''0''\<rparr>) ''calories''
       = Some (JNum 0)
   \<and> (parseInt10 (servings f) = Some 0 \<longrightarrow>
        AddRecipeScreen_newRecipe f ''servings'' = Some (JNum 1)
        \<and> EditRecipeScreen_updatedRecipe recipe f ''servings'' = Some (JNum 1))"
proof -
  have "parseInt10 ''0'' = Some 0"
    by (simp add: parseInt10_eval)
  then show ?thesis
    by (simp add: AddRecipeScreen_newRecipe_def EditRecipeScreen_updatedRecipe_def num_or_def)
qed

theorem zero_is_falsy_witness:
  "parseInt10 (servings zero_form) = Some 0
   \<and> AddRecipeScreen_newRecipe zero_form ''servings'' = Some (JNum 1)
   \<and> AddRecipeScreen_newRecipe zero_form ''calories'' = Some (JNum 0)
   \<and> EditRecipeScreen_updatedRecipe Map.empty zero_form ''servings'' = Some (JNum 1)"
  using zero_is_falsy [of zero_form Map.empty]
  by (simp add: zero_form_def)

section \<open>The filter of the main feed\<close>

lemma filter_js_total:
  "(\<And>x. x \<in> set xs \<Longrightarrow> p x = Inr (q x)) \<Longrightarrow> filter_js p xs = Inr (filter q xs)"
  by (induction xs) auto

lemma strict_eq_opt_JStr: "strict_eq_opt c (Some (JStr s)) = (c = Some (JStr s))"
  by (cases c) (simp_all add: strict_eq_JStr)

lemma get_property_not_null: "r \<noteq> JNull \<Longrightarrow> \<exists>c. get_property r key = Inr c"
  by (cases r) simp_all

text \<open>
  C4. For a list of recipes none of which is \<open>null\<close>: selecting \<open>all\<close> keeps
  exactly the recipes whose category is not the string \<open>myfood\<close>, and selecting any
  other category keeps exactly the recipes whose category is that string, in both cases
  in the order of the list.
\<close>

theorem filteredRecipes_rule:
  assumes "\<forall>r\<in>set allRecipes. r \<noteq> JNull"
  shows "filteredRecipes selectedCategory allRecipes =
     Inr (if selectedCategory = ''all''
          then filter (\<lambda>r. get_property r ''category'' \<noteq> Inr (Some (JStr ''myfood''))) allRecipes
          else filter (\<lambda>r. get_property r ''category'' = Inr (Some (JStr selectedCategory)))
                 allRecipes)"
proof -
  have other: "filter_js (\<lambda>r. case get_property r ''category'' of
                          Inl e \<Rightarrow> Inl e
                        | Inr c \<Rightarrow> Inr (strict_eq_opt c (Some (JStr s)))) allRecipes
      = Inr (filter (\<lambda>r. get_property r ''category'' = Inr (Some (JStr s))) allRecipes)" for s
  proof (rule filter_js_total)
    fix r assume "r \<in> set allRecipes"
    then have "r \<noteq> JNull" using assms by blast
    then obtain c where "get_property r ''category'' = Inr c"
      using get_property_not_null by blast
    then show "(case get_property r ''category'' of
                  Inl e \<Rightarrow> Inl e
                | Inr c \<Rightarrow> Inr (strict_eq_opt c (Some (JStr s))))
        = Inr (get_property r ''category'' = Inr (Some (JStr s)))"
      by (simp add: strict_eq_opt_JStr)
  qed
  have all: "filter_js (\<lambda>r. case get_property r ''category'' of
                          Inl e \<Rightarrow> Inl e
                        | Inr c \<Rightarrow> Inr (\<not> strict_eq_opt c (Some (JStr ''myfood'')))) allRecipes
      = Inr (filter (\<lambda>r. get_property r ''category'' \<noteq> Inr (Some (JStr ''myfood''))) allRecipes)"
  proof (rule filter_js_total)
    fix r assume "r \<in> set allRecipes"
    then have "r \<noteq> JNull" using assms by blast
    then obtain c where "get_property r ''category'' = Inr c"
      using get_property_not_null by blast
    then show "(case get_property r ''category'' of
                  Inl e \<Rightarrow> Inl e
                | Inr c \<Rightarrow> Inr (\<not> strict_eq_opt c (Some (JStr ''myfood''))))
        = Inr (get_property r ''category'' \<noteq> Inr (Some (JStr ''myfood'')))"
      by (simp add: strict_eq_opt_JStr)
  qed
  show ?thesis
    unfolding filteredRecipes_def using other all by simp
qed

theorem filteredRecipes_rule_witness:
  "JObj breakfast_1 \<noteq> JNull \<and> JObj lunch_2 \<noteq> JNull \<and> JObj user_1 \<noteq> JNull
   \<and> filteredRecipes ''all'' [JObj breakfast_1, JObj lunch_2, JObj user_1]
       = Inr [JObj breakfast_1, JObj lunch_2]
   \<and> filteredRecipes ''lunch'' [JObj breakfast_1, JObj lunch_2, JObj user_1]
       = Inr [JObj lunch_2]"
  using filteredRecipes_rule [of "[JObj breakfast_1, JObj lunch_2, JObj user_1]" "''all''"]
    filteredRecipes_rule [of "[JObj breakfast_1, JObj lunch_2, JObj user_1]" "''lunch''"]
  by (simp add: breakfast_1_def lunch_2_def user_1_def)

section \<open>Adding a recipe\<close>






lemma addMyRecipe_saved:
  assumes "\<not> setItem_rejects st"
    and "fst (getMyRecipes st) = Inr (JArr rs)"
  shows "addMyRecipe recipe now st =
     (Inr (Some (recipe(''id'' \<mapsto> JStr (''user_'' @ toString now), ''category'' \<mapsto> JStr ''myfood''))),
      st\<lparr>items := (items st)(MY_RECIPES_KEY \<mapsto>
            Json (JArr (rs @ [JObj (recipe(''id'' \<mapsto> JStr (''user_'' @ toString now),
                                          ''category'' \<mapsto> JStr ''myfood''))])))\<rparr>)"
  using assms
  by (simp add: addMyRecipe_def try_catch_def await_def lift_def resolve_def Let_def
      getMyRecipes_eq saveMyRecipes_eq push_def
      split: if_splits option.splits json_text.splits)



section \<open>Updating a recipe\<close>

lemma array_findIndex_found:
  assumes "k < length os"
    and "(os ! k) ''id'' = Some (JStr i)"
    and "\<forall>j<k. (os ! j) ''id'' \<noteq> Some (JStr i)"
  shows "array_findIndex (\<lambda>r. case get_property r ''id'' of
                                  Inl e \<Rightarrow> Inl e
                                | Inr c \<Rightarrow> Inr (strict_eq_opt c (Some (JStr i))))
           (map JObj os) = Inr (int k)"
  using assms
proof (induction os arbitrary: k)
  case Nil
  then show ?case by simp
next
  case (Cons a os)
  show ?case
  proof (cases k)
    case 0
    with Cons.prems show ?thesis by (simp add: strict_eq_opt_JStr)
  next
    case (Suc k')
    have h: "a ''id'' \<noteq> Some (JStr i)"
      using Cons.prems(3) Suc by (metis nth_Cons_0 zero_less_Suc)
    have "array_findIndex (\<lambda>r. case get_property r ''id'' of
                                  Inl e \<Rightarrow> Inl e
                                | Inr c \<Rightarrow> Inr (strict_eq_opt c (Some (JStr i))))
           (map JObj os) = Inr (int k')"
    proof (rule Cons.IH)
      show "k' < length os" using Cons.prems(1) Suc by simp
      show "(os ! k') ''id'' = Some (JStr i)" using Cons.prems(2) Suc by simp
      show "\<forall>j<k'. (os ! j) ''id'' \<noteq> Some (JStr i)"
        using Cons.prems(3) Suc by (metis Suc_less_eq nth_Cons_Suc)
    qed
    with h Suc show ?thesis by (simp add: strict_eq_opt_JStr)
  qed
qed

lemma array_findIndex_missing:
  assumes "\<forall>r\<in>set os. r ''id'' \<noteq> Some (JStr i)"
  shows "array_findIndex (\<lambda>r. case get_property r ''id'' of
                                  Inl e \<Rightarrow> Inl e
                                | Inr c \<Rightarrow> Inr (strict_eq_opt c (Some (JStr i))))
           (map JObj os) = Inr (- 1)"
  using assms by (induction os) (simp_all add: strict_eq_opt_JStr)

lemma merged_props:
  "defined_props (own_props old ++ u)
     = (\<lambda>key. case u key of
                None \<Rightarrow> old key
              | Some Undefined \<Rightarrow> None
              | Some (Defined v) \<Rightarrow> Some v)"
  by (rule ext)
    (simp add: defined_props_def own_props_def map_add_def split: option.splits slot.splits)

lemma updateMyRecipe_found:
  assumes "\<not> setItem_rejects st"
    and "fst (getMyRecipes st) = Inr (JArr (map JObj os))"
    and "updatedRecipe ''id'' = Some (Defined (JStr i))"
    and "k < length os"
    and "(os ! k) ''id'' = Some (JStr i)"
    and "\<forall>j<k. (os ! j) ''id'' \<noteq> Some (JStr i)"
  shows "updateMyRecipe updatedRecipe st =
     (Inr (), st\<lparr>items := (items st)(MY_RECIPES_KEY \<mapsto>
        Json (JArr (map JObj (os[k := (\<lambda>key. case updatedRecipe key of
                                               None \<Rightarrow> (os ! k) key
                                             | Some Undefined \<Rightarrow> None
                                             | Some (Defined v) \<Rightarrow> Some v)]))))\<rparr>)"
proof -
  have r: "getMyRecipes st = (Inr (JArr (map JObj os)), st)"
    using assms(2) by (simp add: getMyRecipes_eq)
  have i: "defined_props updatedRecipe ''id'' = Some (JStr i)"
    using assms(3) by (simp add: defined_props_def)
  have f: "findIndex (JArr (map JObj os)) (\<lambda>r. case get_property r ''id'' of
                                  Inl e \<Rightarrow> Inl e
                                | Inr c \<Rightarrow> Inr (strict_eq_opt c (defined_props updatedRecipe ''id'')))
      = Inr (int k)"
    unfolding findIndex_def i using array_findIndex_found [OF assms(4,5,6)] by simp
  show ?thesis
    using assms(1,4)
    by (simp add: updateMyRecipe_def try_catch_def await_def lift_def resolve_def r f
        saveMyRecipes_eq spread_props_def map_update merged_props)
qed

lemma updateMyRecipe_missing:
  assumes "fst (getMyRecipes st) = Inr (JArr (map JObj os))"
    and "updatedRecipe ''id'' = Some (Defined (JStr i))"
    and "\<forall>r\<in>set os. r ''id'' \<noteq> Some (JStr i)"
  shows "updateMyRecipe updatedRecipe st = (Inr (), st)"
proof -
  have r: "getMyRecipes st = (Inr (JArr (map JObj os)), st)"
    using assms(1) by (simp add: getMyRecipes_eq)
  have i: "defined_props updatedRecipe ''id'' = Some (JStr i)"
    using assms(2) by (simp add: defined_props_def)
  have f: "findIndex (JArr (map JObj os)) (\<lambda>r. case get_property r ''id'' of
                                  Inl e \<Rightarrow> Inl e
                                | Inr c \<Rightarrow> Inr (strict_eq_opt c (defined_props updatedRecipe ''id'')))
      = Inr (- 1)"
    unfolding findIndex_def i using array_findIndex_missing [OF assms(3)] by simp
  show ?thesis
    by (simp add: updateMyRecipe_def try_catch_def await_def lift_def resolve_def r f)
qed

text \<open>
  C3. On a store that reads and writes and holds the records \<open>os\<close>, with an update that
  carries the id \<open>i\<close>: if \<open>k\<close> is the first position of a record with id \<open>i\<close>,
  the store afterwards holds the same records except that the one at \<open>k\<close> is the old
  one with the properties of the update written over it. A property that the update does
  not have keeps its old value; a property that the update has with a value takes that
  value; a property that the update has with \<open>undefined\<close> is written over too, and so is
  not in the stored record. If no record has id \<open>i\<close>, nothing is written and the store
  is as before.
\<close>

theorem updateMyRecipe_merges:
  assumes "\<not> getItem_rejects st" and "\<not> setItem_rejects st"
    and "fst (getMyRecipes st) = Inr (JArr (map JObj os))"
    and "updatedRecipe ''id'' = Some (Defined (JStr i))"
  shows "(k < length os \<and> (os ! k) ''id'' = Some (JStr i)
            \<and> (\<forall>j<k. (os ! j) ''id'' \<noteq> Some (JStr i)) \<longrightarrow>
          fst (updateMyRecipe updatedRecipe st) = Inr ()
          \<and> fst (getMyRecipes (snd (updateMyRecipe updatedRecipe st)))
              = Inr (JArr (map JObj
                  (os[k := (\<lambda>key. case updatedRecipe key of
                                     None \<Rightarrow> (os ! k) key
                                   | Some Undefined \<Rightarrow> None
                                   | Some (Defined v) \<Rightarrow> Some v)]))))
       \<and> ((\<forall>r\<in>set os. r ''id'' \<noteq> Some (JStr i)) \<longrightarrow>
          updateMyRecipe updatedRecipe st = (Inr (), st))"
proof (intro conjI impI)
  assume "\<forall>r\<in>set os. r ''id'' \<noteq> Some (JStr i)"
  then show "updateMyRecipe updatedRecipe st = (Inr (), st)"
    using assms(3,4) updateMyRecipe_missing by blast
next
  assume h: "k < length os \<and> (os ! k) ''id'' = Some (JStr i)
            \<and> (\<forall>j<k. (os ! j) ''id'' \<noteq> Some (JStr i))"
  have u: "updateMyRecipe updatedRecipe st =
     (Inr (), st\<lparr>items := (items st)(MY_RECIPES_KEY \<mapsto>
        Json (JArr (map JObj (os[k := (\<lambda>key. case updatedRecipe key of
                                               None \<Rightarrow> (os ! k) key
                                             | Some Undefined \<Rightarrow> None
                                             | Some (Defined v) \<Rightarrow> Some v)]))))\<rparr>)"
    using assms(2,3,4) h updateMyRecipe_found by blast
  show "fst (updateMyRecipe updatedRecipe st) = Inr ()"
    unfolding u by simp
  show "fst (getMyRecipes (snd (updateMyRecipe updatedRecipe st)))
              = Inr (JArr (map JObj
                  (os[k := (\<lambda>key. case updatedRecipe key of
                                     None \<Rightarrow> (os ! k) key
                                   | Some Undefined \<Rightarrow> None
                                   | Some (Defined v) \<Rightarrow> Some v)])))"
    unfolding u using assms(1) by (simp add: getMyRecipes_eq)
qed

theorem updateMyRecipe_merges_witness:
  "\<not> getItem_rejects three_recipes_store
   \<and> \<not> setItem_rejects three_recipes_store
   \<and> fst (getMyRecipes three_recipes_store) = Inr (JArr (map JObj [user_1, user_2, user_3]))
   \<and> calories_patch ''id'' = Some (Defined (JStr ''user_1''))
   \<and> name_undefined_patch ''id'' = Some (Defined (JStr ''user_1''))
   \<and> (0::nat) < length [user_1, user_2, user_3]
   \<and> ([user_1, user_2, user_3] ! 0) ''id'' = Some (JStr ''user_1'')
   \<and> fst (getMyRecipes (snd (updateMyRecipe calories_patch three_recipes_store)))
       = Inr (JArr [JObj (user_1(''calories'' \<mapsto> JNum 200)), JObj user_2, JObj user_3])
   \<and> (user_1(''calories'' \<mapsto> JNum 200)) ''name'' = Some (JStr ''A'')
   \<and> fst (getMyRecipes (snd (updateMyRecipe name_undefined_patch three_recipes_store)))
       = Inr (JArr [JObj (user_1(''calories'' \<mapsto> JNum 200, ''name'' := None)),
                    JObj user_2, JObj user_3])
   \<and> (user_1(''calories'' \<mapsto> JNum 200, ''name'' := None)) ''name'' = None
   \<and> updateMyRecipe (calories_patch(''id'' \<mapsto> Defined (JStr ''user_9''))) three_recipes_store
       = (Inr (), three_recipes_store)"
proof -
  have given: "(\<lambda>key. case calories_patch key of
                         None \<Rightarrow> ([user_1, user_2, user_3] ! 0) key
                       | Some Undefined \<Rightarrow> None
                       | Some (Defined v) \<Rightarrow> Some v)
      = user_1(''calories'' \<mapsto> JNum 200)"
    by (rule ext) (simp add: calories_patch_def user_1_def)
  have dropped: "(\<lambda>key. case name_undefined_patch key of
                         None \<Rightarrow> ([user_1, user_2, user_3] ! 0) key
                       | Some Undefined \<Rightarrow> None
                       | Some (Defined v) \<Rightarrow> Some v)
      = user_1(''calories'' \<mapsto> JNum 200, ''name'' := None)"
    by (rule ext) (simp add: name_undefined_patch_def user_1_def)
  have stored: "fst (getMyRecipes three_recipes_store)
      = Inr (JArr (map JObj [user_1, user_2, user_3]))"
    by (simp add: three_recipes_store_def getMyRecipes_eq)
  have ids: "calories_patch ''id'' = Some (Defined (JStr ''user_1''))"
    "name_undefined_patch ''id'' = Some (Defined (JStr ''user_1''))"
    "user_1 ''id'' = Some (JStr ''user_1'')"
    "user_2 ''id'' = Some (JStr ''user_2'')"
    "user_3 ''id'' = Some (JStr ''user_3'')"
    "user_1 ''name'' = Some (JStr ''A'')"
    by (simp_all add: calories_patch_def name_undefined_patch_def user_1_def user_2_def
        user_3_def)
  have healthy: "\<not> getItem_rejects three_recipes_store" "\<not> setItem_rejects three_recipes_store"
    by (simp_all add: three_recipes_store_def)
  show ?thesis
    using updateMyRecipe_merges [of three_recipes_store "[user_1, user_2, user_3]"
        calories_patch "''user_1''" 0]
      updateMyRecipe_merges [of three_recipes_store "[user_1, user_2, user_3]"
        name_undefined_patch "''user_1''" 0]
      updateMyRecipe_merges [of three_recipes_store "[user_1, user_2, user_3]"
        "calories_patch(''id'' \<mapsto> Defined (JStr ''user_9''))" "''user_9''" 0]
    by (simp add: given dropped healthy stored ids)
qed

section \<open>Deleting a recipe\<close>

lemma filter_js_no_null:
  assumes "\<forall>r\<in>set rs. r \<noteq> JNull"
  shows "filter_js (\<lambda>r. case get_property r ''id'' of
                          Inl e \<Rightarrow> Inl e
                        | Inr c \<Rightarrow> Inr (\<not> strict_eq_opt c (Some (JStr x)))) rs
      = Inr (filter (\<lambda>r. get_property r ''id'' \<noteq> Inr (Some (JStr x))) rs)"
proof (rule filter_js_total)
  fix r assume "r \<in> set rs"
  then have "r \<noteq> JNull" using assms by blast
  then obtain c where "get_property r ''id'' = Inr c"
    using get_property_not_null by blast
  then show "(case get_property r ''id'' of
                Inl e \<Rightarrow> Inl e
              | Inr c \<Rightarrow> Inr (\<not> strict_eq_opt c (Some (JStr x))))
      = Inr (get_property r ''id'' \<noteq> Inr (Some (JStr x)))"
    by (simp add: strict_eq_opt_JStr)
qed

lemma deleteMyRecipe_saved:
  assumes "\<not> setItem_rejects st"
    and "fst (getMyRecipes st) = Inr (JArr rs)"
    and "\<forall>r\<in>set rs. r \<noteq> JNull"
  shows "deleteMyRecipe x st =
     (Inr (), st\<lparr>items := (items st)(MY_RECIPES_KEY \<mapsto>
        Json (JArr (filter (\<lambda>r. get_property r ''id'' \<noteq> Inr (Some (JStr x))) rs)))\<rparr>)"
proof -
  have r: "getMyRecipes st = (Inr (JArr rs), st)"
    using assms(2) by (simp add: getMyRecipes_eq)
  show ?thesis
    using assms(1)
    by (simp add: deleteMyRecipe_def try_catch_def await_def lift_def r filter_method_def
        filter_js_no_null [OF assms(3)] saveMyRecipes_eq)
qed

lemma filter_distinct_key:
  assumes "distinct (map f xs)" and "k < length xs" and "f (xs ! k) = v"
  shows "filter (\<lambda>y. f y \<noteq> v) xs = take k xs @ drop (Suc k) xs"
  using assms
proof (induction xs arbitrary: k)
  case Nil
  then show ?case by simp
next
  case (Cons a xs)
  show ?case
  proof (cases k)
    case 0
    with Cons.prems have a: "f a = v" and "f a \<notin> f ` set xs" by auto
    then have "\<forall>y\<in>set xs. f y \<noteq> v" by (metis imageI)
    with a 0 show ?thesis by simp
  next
    case (Suc k')
    with Cons.prems have k': "k' < length xs" and v: "f (xs ! k') = v" by auto
    then have "v \<in> f ` set xs" by (metis imageI nth_mem)
    with Cons.prems(1) have "f a \<noteq> v" by auto
    moreover have "filter (\<lambda>y. f y \<noteq> v) xs = take k' xs @ drop (Suc k') xs"
      using Cons.IH [OF _ k' v] Cons.prems(1) by simp
    ultimately show ?thesis using Suc by simp
  qed
qed

lemma filter_objects:
  "filter (\<lambda>r. get_property r ''id'' \<noteq> Inr (Some (JStr x))) (map JObj os)
     = map JObj (filter (\<lambda>r. r ''id'' \<noteq> Some (JStr x)) os)"
  by (induction os) simp_all

text \<open>
  C6. On a store that reads and writes and holds records of pairwise different ids:
  \<open>deleteMyRecipe\<close> with the id of the record at position \<open>k\<close> leaves the records
  before \<open>k\<close> followed by the records after \<open>k\<close>, in their old order; with an id
  that no record has, it leaves the collection as it was.
\<close>

theorem deleteMyRecipe_removes_one:
  assumes "\<not> getItem_rejects st" and "\<not> setItem_rejects st"
    and "fst (getMyRecipes st) = Inr (JArr (map JObj os))"
    and "distinct (map (\<lambda>r. r ''id'') os)"
  shows "fst (deleteMyRecipe x st) = Inr ()
       \<and> (k < length os \<and> (os ! k) ''id'' = Some (JStr x) \<longrightarrow>
            fst (getMyRecipes (snd (deleteMyRecipe x st)))
              = Inr (JArr (map JObj (take k os @ drop (Suc k) os))))
       \<and> ((\<forall>r\<in>set os. r ''id'' \<noteq> Some (JStr x)) \<longrightarrow>
            fst (getMyRecipes (snd (deleteMyRecipe x st))) = Inr (JArr (map JObj os)))"
proof -
  have d: "deleteMyRecipe x st =
     (Inr (), st\<lparr>items := (items st)(MY_RECIPES_KEY \<mapsto>
        Json (JArr (map JObj (filter (\<lambda>r. r ''id'' \<noteq> Some (JStr x)) os))))\<rparr>)"
    using deleteMyRecipe_saved [OF assms(2,3), of x] by (simp add: filter_objects)
  have g: "fst (getMyRecipes (snd (deleteMyRecipe x st)))
      = Inr (JArr (map JObj (filter (\<lambda>r. r ''id'' \<noteq> Some (JStr x)) os)))"
    unfolding d using assms(1) by (simp add: getMyRecipes_eq)
  have one: "filter (\<lambda>r. r ''id'' \<noteq> Some (JStr x)) os = take k os @ drop (Suc k) os"
    if "k < length os" and "(os ! k) ''id'' = Some (JStr x)"
    using filter_distinct_key [of "\<lambda>r. r ''id''" os k "Some (JStr x)"] assms(4) that by simp
  have none: "filter (\<lambda>r. r ''id'' \<noteq> Some (JStr x)) os = os"
    if "\<forall>r\<in>set os. r ''id'' \<noteq> Some (JStr x)"
    using that by simp
  show ?thesis
  proof (intro conjI impI)
    show "fst (deleteMyRecipe x st) = Inr ()"
      unfolding d by simp
  next
    assume "k < length os \<and> (os ! k) ''id'' = Some (JStr x)"
    then have "filter (\<lambda>r. r ''id'' \<noteq> Some (JStr x)) os = take k os @ drop (Suc k) os"
      using one by blast
    with g show "fst (getMyRecipes (snd (deleteMyRecipe x st)))
              = Inr (JArr (map JObj (take k os @ drop (Suc k) os)))"
      by simp
  next
    assume "\<forall>r\<in>set os. r ''id'' \<noteq> Some (JStr x)"
    then have "filter (\<lambda>r. r ''id'' \<noteq> Some (JStr x)) os = os"
      by (rule none)
    with g show "fst (getMyRecipes (snd (deleteMyRecipe x st))) = Inr (JArr (map JObj os))"
      by simp
  qed
qed

theorem deleteMyRecipe_removes_one_witness:
  "\<not> getItem_rejects three_recipes_store
   \<and> \<not> setItem_rejects three_recipes_store
   \<and> fst (getMyRecipes three_recipes_store) = Inr (JArr (map JObj [user_1, user_2, user_3]))
   \<and> distinct (map (\<lambda>r. r ''id'') [user_1, user_2, user_3])
   \<and> (1::nat) < length [user_1, user_2, user_3]
   \<and> ([user_1, user_2, user_3] ! 1) ''id'' = Some (JStr ''user_2'')
   \<and> fst (getMyRecipes (snd (deleteMyRecipe ''user_2'' three_recipes_store)))
       = Inr (JArr [JObj user_1, JObj user_3])
   \<and> fst (getMyRecipes (snd (deleteMyRecipe ''user_9'' three_recipes_store)))
       = Inr (JArr [JObj user_1, JObj user_2, JObj user_3])"
  using deleteMyRecipe_removes_one [of three_recipes_store "[user_1, user_2, user_3]" "''user_2''" 1]
    deleteMyRecipe_removes_one [of three_recipes_store "[user_1, user_2, user_3]" "''user_9''" 1]
  by (simp add: three_recipes_store_def getMyRecipes_eq user_1_def user_2_def user_3_def)

text \<open>
  C9. Whatever the ids are, pairwise different or not, \<open>deleteMyRecipe x\<close> leaves
  exactly the members whose id is not \<open>x\<close>: none of the remaining members has id
  \<open>x\<close>, and as many members are gone as had it. With two records of id \<open>user_1\<close>
  in the store, one call removes both.
\<close>

theorem deleteMyRecipe_removes_all:
  assumes "\<not> getItem_rejects st" and "\<not> setItem_rejects st"
    and "fst (getMyRecipes st) = Inr (JArr rs)"
    and "\<forall>r\<in>set rs. r \<noteq> JNull"
  shows "fst (getMyRecipes (snd (deleteMyRecipe x st)))
           = Inr (JArr (filter (\<lambda>r. get_property r ''id'' \<noteq> Inr (Some (JStr x))) rs))
       \<and> (\<forall>r\<in>set (filter (\<lambda>r. get_property r ''id'' \<noteq> Inr (Some (JStr x))) rs).
             get_property r ''id'' \<noteq> Inr (Some (JStr x)))
       \<and> length (filter (\<lambda>r. get_property r ''id'' \<noteq> Inr (Some (JStr x))) rs)
           + length (filter (\<lambda>r. get_property r ''id'' = Inr (Some (JStr x))) rs)
           = length rs"
proof -
  have "fst (getMyRecipes (snd (deleteMyRecipe x st)))
           = Inr (JArr (filter (\<lambda>r. get_property r ''id'' \<noteq> Inr (Some (JStr x))) rs))"
    unfolding deleteMyRecipe_saved [OF assms(2,3,4)] using assms(1) by (simp add: getMyRecipes_eq)
  moreover have "length (filter (\<lambda>r. get_property r ''id'' \<noteq> Inr (Some (JStr x))) rs)
           + length (filter (\<lambda>r. get_property r ''id'' = Inr (Some (JStr x))) rs)
           = length rs"
    using sum_length_filter_compl [of "\<lambda>r. get_property r ''id'' = Inr (Some (JStr x))" rs]
    by simp
  ultimately show ?thesis by simp
qed

theorem deleteMyRecipe_removes_all_witness:
  "\<not> getItem_rejects duplicate_ids_store
   \<and> \<not> setItem_rejects duplicate_ids_store
   \<and> fst (getMyRecipes duplicate_ids_store)
       = Inr (JArr [JObj user_1, JObj user_2, JObj (user_3 ++ [''id'' \<mapsto> JStr ''user_1''])])
   \<and> get_property (JObj user_1) ''id'' = Inr (Some (JStr ''user_1''))
   \<and> get_property (JObj (user_3 ++ [''id'' \<mapsto> JStr ''user_1''])) ''id'' = Inr (Some (JStr ''user_1''))
   \<and> fst (getMyRecipes (snd (deleteMyRecipe ''user_1'' duplicate_ids_store)))
       = Inr (JArr [JObj user_2])"
  using deleteMyRecipe_removes_all [of duplicate_ids_store
      "[JObj user_1, JObj user_2, JObj (user_3 ++ [''id'' \<mapsto> JStr ''user_1''])]" "''user_1''"]
  by (simp add: duplicate_ids_store_def getMyRecipes_eq user_1_def user_2_def user_3_def)

section \<open>Failures of the store\<close>

lemma try_catch_fulfils: "fst (try_catch body (\<lambda>error. resolve d) st) \<noteq> Inl e"
  by (simp add: try_catch_def resolve_def split: prod.splits sum.splits)

lemma try_catch_unit: "fst (try_catch body (\<lambda>error. resolve ()) st) = Inr ()"
  by (simp add: try_catch_def resolve_def split: prod.splits sum.splits)

lemma toggleFavorite_not_array:
  assumes "fst (getFavorites st) = Inr v" and "\<forall>xs. v \<noteq> JArr xs"
  shows "toggleFavorite x st = (Inr (JArr []), st)"
proof -
  have g: "getFavorites st = (Inr v, st)"
    using assms(1) by (simp add: getFavorites_eq)
  show ?thesis
    using assms(2)
    by (cases v)
      (simp_all add: toggleFavorite_def try_catch_def await_def lift_def resolve_def g
        indexOf_def splice1_def push_def)
qed

lemma addMyRecipe_not_array:
  assumes "fst (getMyRecipes st) = Inr v" and "\<forall>xs. v \<noteq> JArr xs"
  shows "addMyRecipe recipe now st = (Inr None, st)"
proof -
  have g: "getMyRecipes st = (Inr v, st)"
    using assms(1) by (simp add: getMyRecipes_eq)
  show ?thesis
    using assms(2)
    by (cases v)
      (simp_all add: addMyRecipe_def try_catch_def await_def lift_def resolve_def g push_def)
qed

lemma updateMyRecipe_not_array:
  assumes "fst (getMyRecipes st) = Inr v" and "\<forall>xs. v \<noteq> JArr xs"
  shows "updateMyRecipe updatedRecipe st = (Inr (), st)"
proof -
  have g: "getMyRecipes st = (Inr v, st)"
    using assms(1) by (simp add: getMyRecipes_eq)
  show ?thesis
    using assms(2)
    by (cases v)
      (simp_all add: updateMyRecipe_def try_catch_def await_def lift_def resolve_def g
        findIndex_def)
qed

lemma deleteMyRecipe_not_array:
  assumes "fst (getMyRecipes st) = Inr v" and "\<forall>xs. v \<noteq> JArr xs"
  shows "deleteMyRecipe x st = (Inr (), st)"
proof -
  have g: "getMyRecipes st = (Inr v, st)"
    using assms(1) by (simp add: getMyRecipes_eq)
  show ?thesis
    using assms(2)
    by (cases v)
      (simp_all add: deleteMyRecipe_def try_catch_def await_def lift_def resolve_def g
        filter_method_def)
qed

lemma updateMyRecipe_unwritable:
  assumes "setItem_rejects st"
  shows "snd (updateMyRecipe updatedRecipe st) = st"
proof -
  obtain v where g: "getMyRecipes st = (Inr v, st)"
    by (simp add: getMyRecipes_eq)
  show ?thesis
    using assms
    by (simp add: updateMyRecipe_def try_catch_def await_def lift_def resolve_def reject_def g
        saveMyRecipes_eq split: sum.splits jval.splits)
qed

lemma deleteMyRecipe_unwritable:
  assumes "setItem_rejects st"
  shows "snd (deleteMyRecipe x st) = st"
proof -
  obtain v where g: "getMyRecipes st = (Inr v, st)"
    by (simp add: getMyRecipes_eq)
  show ?thesis
    using assms
    by (simp add: deleteMyRecipe_def try_catch_def await_def lift_def resolve_def g
        saveMyRecipes_eq split: sum.splits)
qed

text \<open>
  Every operation of the utility fulfils with a plain value, on every store and for every
  argument; none rejects. When the read is rejected or the stored text is not JSON,
  \<open>getFavorites\<close> and \<open>getMyRecipes\<close> return the empty sequence and
  \<open>updateMyRecipe\<close> writes nothing. When the write is rejected, \<open>saveFavorites\<close>,
  \<open>saveMyRecipes\<close>, \<open>updateMyRecipe\<close> and \<open>deleteMyRecipe\<close> leave the store as it
  was. A failure reaches the handler of \<open>toggleFavorite\<close>, \<open>addMyRecipe\<close>,
  \<open>updateMyRecipe\<close> or \<open>deleteMyRecipe\<close> itself when the stored value is not an
  array: then \<open>toggleFavorite\<close> returns the empty sequence, \<open>addMyRecipe\<close> returns
  \<open>null\<close>, and all four leave the store as it was.
\<close>

lemma storage_never_rejects:
  "fst (getFavorites st) \<noteq> Inl e
   \<and> fst (saveFavorites v st) \<noteq> Inl e
   \<and> fst (toggleFavorite x st) \<noteq> Inl e
   \<and> fst (getMyRecipes st) \<noteq> Inl e
   \<and> fst (saveMyRecipes v st) \<noteq> Inl e
   \<and> fst (addMyRecipe recipe now st) \<noteq> Inl e
   \<and> fst (updateMyRecipe updatedRecipe st) \<noteq> Inl e
   \<and> fst (deleteMyRecipe x st) \<noteq> Inl e
   \<and> (getItem_rejects st \<or> items st FAVORITES_KEY = Some Malformed \<longrightarrow>
        getFavorites st = (Inr (JArr []), st))
   \<and> (getItem_rejects st \<or> items st MY_RECIPES_KEY = Some Malformed \<longrightarrow>
        getMyRecipes st = (Inr (JArr []), st))
   \<and> (getItem_rejects st \<or> items st MY_RECIPES_KEY = Some Malformed \<longrightarrow>
        updateMyRecipe updatedRecipe st = (Inr (), st))
   \<and> (setItem_rejects st \<longrightarrow>
        saveFavorites v st = (Inr (), st)
        \<and> saveMyRecipes v st = (Inr (), st)
        \<and> updateMyRecipe updatedRecipe st = (Inr (), st)
        \<and> deleteMyRecipe x st = (Inr (), st))
   \<and> ((\<forall>xs. fst (getFavorites st) \<noteq> Inr (JArr xs)) \<longrightarrow>
        toggleFavorite x st = (Inr (JArr []), st))
   \<and> ((\<forall>xs. fst (getMyRecipes st) \<noteq> Inr (JArr xs)) \<longrightarrow>
        addMyRecipe recipe now st = (Inr None, st)
        \<and> updateMyRecipe updatedRecipe st = (Inr (), st)
        \<and> deleteMyRecipe x st = (Inr (), st))"
proof -
  have fulfils:
    "fst (getFavorites st) \<noteq> Inl e" "fst (saveFavorites v st) \<noteq> Inl e"
    "fst (toggleFavorite x st) \<noteq> Inl e" "fst (getMyRecipes st) \<noteq> Inl e"
    "fst (saveMyRecipes v st) \<noteq> Inl e" "fst (addMyRecipe recipe now st) \<noteq> Inl e"
    "fst (updateMyRecipe updatedRecipe st) \<noteq> Inl e" "fst (deleteMyRecipe x st) \<noteq> Inl e"
    unfolding getFavorites_def saveFavorites_def toggleFavorite_def getMyRecipes_def
      saveMyRecipes_def addMyRecipe_def updateMyRecipe_def deleteMyRecipe_def
    by (rule try_catch_fulfils)+
  have reads:
    "getItem_rejects st \<or> items st FAVORITES_KEY = Some Malformed \<longrightarrow>
       getFavorites st = (Inr (JArr []), st)"
    "getItem_rejects st \<or> items st MY_RECIPES_KEY = Some Malformed \<longrightarrow>
       getMyRecipes st = (Inr (JArr []), st)"
    by (auto simp: getFavorites_eq getMyRecipes_eq)
  have update_unread:
    "getItem_rejects st \<or> items st MY_RECIPES_KEY = Some Malformed \<longrightarrow>
       updateMyRecipe updatedRecipe st = (Inr (), st)"
    by (auto simp: updateMyRecipe_def try_catch_def await_def lift_def resolve_def
        getMyRecipes_eq findIndex_def)
  have unit_results:
    "fst (updateMyRecipe updatedRecipe st) = Inr ()" "fst (deleteMyRecipe x st) = Inr ()"
    unfolding updateMyRecipe_def deleteMyRecipe_def by (rule try_catch_unit)+
  have writes:
    "setItem_rejects st \<longrightarrow>
        saveFavorites v st = (Inr (), st)
        \<and> saveMyRecipes v st = (Inr (), st)
        \<and> updateMyRecipe updatedRecipe st = (Inr (), st)
        \<and> deleteMyRecipe x st = (Inr (), st)"
    using unit_results updateMyRecipe_unwritable [of st updatedRecipe] deleteMyRecipe_unwritable [of st x]
    by (simp add: saveFavorites_eq saveMyRecipes_eq prod_eq_iff)
  have own_handler_favorites:
    "(\<forall>xs. fst (getFavorites st) \<noteq> Inr (JArr xs)) \<longrightarrow>
        toggleFavorite x st = (Inr (JArr []), st)"
    using toggleFavorite_not_array [of st _ x] by (simp add: getFavorites_eq)
  have own_handler_recipes:
    "(\<forall>xs. fst (getMyRecipes st) \<noteq> Inr (JArr xs)) \<longrightarrow>
        addMyRecipe recipe now st = (Inr None, st)
        \<and> updateMyRecipe updatedRecipe st = (Inr (), st)
        \<and> deleteMyRecipe x st = (Inr (), st)"
    using addMyRecipe_not_array [of st _ recipe now] updateMyRecipe_not_array [of st _ updatedRecipe]
      deleteMyRecipe_not_array [of st _ x]
    by (simp add: getMyRecipes_eq)
  from fulfils reads update_unread writes own_handler_favorites own_handler_recipes
  show ?thesis by blast
qed

lemma storage_never_rejects_examples:
  "getItem_rejects unreadable_store
   \<and> getFavorites unreadable_store = (Inr (JArr []), unreadable_store)
   \<and> getMyRecipes unreadable_store = (Inr (JArr []), unreadable_store)
   \<and> updateMyRecipe calories_patch unreadable_store = (Inr (), unreadable_store)
   \<and> setItem_rejects unwritable_store
   \<and> saveFavorites (JArr []) unwritable_store = (Inr (), unwritable_store)
   \<and> deleteMyRecipe ''user_1'' unwritable_store = (Inr (), unwritable_store)
   \<and> fst (getFavorites not_an_array_store) = Inr (JStr ''37'')
   \<and> toggleFavorite ''3'' not_an_array_store = (Inr (JArr []), not_an_array_store)
   \<and> fst (getMyRecipes not_an_array_store) = Inr JNull
   \<and> addMyRecipe tacos 1700000000123 not_an_array_store = (Inr None, not_an_array_store)"
  using storage_never_rejects [of unreadable_store _ "JArr []" "''3''" tacos 1700000000123 calories_patch]
    storage_never_rejects [of unwritable_store _ "JArr []" "''user_1''" tacos 1700000000123 calories_patch]
    storage_never_rejects [of not_an_array_store _ "JArr []" "''3''" tacos 1700000000123 calories_patch]
  by (simp add: unreadable_store_def unwritable_store_def not_an_array_store_def
      getFavorites_eq getMyRecipes_eq FAVORITES_KEY_def MY_RECIPES_KEY_def)

text \<open>
  A rejected read or write does not reach those handlers, the getter or the saver has
  absorbed it before: on a store that rejects reads, \<open>toggleFavorite\<close> returns the one
  id it was given, and \<open>deleteMyRecipe\<close> writes the empty sequence over three stored
  recipes; on a store that rejects writes, \<open>toggleFavorite\<close> returns the sequence it
  could not save.
\<close>

lemma absorbed_failures:
  "getItem_rejects unreadable_store
   \<and> fst (toggleFavorite ''3'' unreadable_store) = Inr (JArr [JStr ''3''])
   \<and> setItem_rejects unwritable_store
   \<and> fst (toggleFavorite ''3'' unwritable_store) = Inr (JArr [JStr ''1'', JStr ''7'', JStr ''3''])
   \<and> items unreadable_store MY_RECIPES_KEY = Some (Json (JArr [JObj user_1, JObj user_2, JObj user_3]))
   \<and> items (snd (deleteMyRecipe ''user_2'' unreadable_store)) MY_RECIPES_KEY = Some (Json (JArr []))"
  by (simp add: unreadable_store_def unwritable_store_def toggleFavorite_def
      try_catch_def await_def lift_def resolve_def getFavorites_eq getMyRecipes_eq
      saveFavorites_eq saveMyRecipes_eq indexOf_def push_def splice1_def deleteMyRecipe_def
      filter_method_def FAVORITES_KEY_def MY_RECIPES_KEY_def)

text \<open>
  C5. The claim has \<open>addMyRecipe\<close> return \<open>null\<close> on any failure, which is what its
  own handler returns and what \<open>handleSave\<close> of the Add screen tests for. On a store
  that rejects writes the code does otherwise: \<open>saveMyRecipes\<close> has absorbed the
  rejection, \<open>addMyRecipe\<close> returns the record it could not save, the store is as it
  was, and \<open>handleSave\<close> shows the dialog of a successful save.
\<close>

theorem addMyRecipe_returns_unsaved_record:
  "setItem_rejects unwritable_store
   \<and> fst (addMyRecipe tacos 1700000000123 unwritable_store)
       = Inr (Some (tacos(''id'' \<mapsto> JStr ''user_1700000000123'', ''category'' \<mapsto> JStr ''myfood'')))
   \<and> fst (addMyRecipe tacos 1700000000123 unwritable_store) \<noteq> Inr None
   \<and> snd (addMyRecipe tacos 1700000000123 unwritable_store) = unwritable_store
   \<and> items unwritable_store MY_RECIPES_KEY = None
   \<and> AddRecipeScreen_handleSave sample_form 1700000000123 unwritable_store
       = (Inr (Alert ''Success'' ''Recipe saved successfully!''), unwritable_store)"
  by (simp add: unwritable_store_def sample_form_def AddRecipeScreen_handleSave_def
      addMyRecipe_def try_catch_def await_def lift_def resolve_def getMyRecipes_eq
      saveMyRecipes_eq push_def trim_def isWhiteSpace_def
      FAVORITES_KEY_def MY_RECIPES_KEY_def toString.simps Let_def)

section \<open>Saving from the Add form\<close>

text \<open>
  What the record built by the form becomes: with a blank name nothing is saved; with a
  name, on a store that reads and writes, the built record (its numbers finite) is stored
  with its id and category and the dialog says so. On a store that rejects writes the dialog says the
  same, although the store is as it was.
\<close>

lemma AddRecipeScreen_handleSave_blank_name:
  assumes "trim (name f) = []"
  shows "AddRecipeScreen_handleSave f now st
           = (Inr (Alert ''Missing Information'' ''Please enter a recipe name.''), st)"
  using assms by (simp add: AddRecipeScreen_handleSave_def resolve_def)

lemma AddRecipeScreen_handleSave_stores:
  assumes "trim (name f) \<noteq> []"
    and "\<not> getItem_rejects st" and "\<not> setItem_rejects st"
    and "fst (getMyRecipes st) = Inr (JArr rs)"
  shows "fst (AddRecipeScreen_handleSave f now st)
           = Inr (Alert ''Success'' ''Recipe saved successfully!'')
       \<and> fst (getMyRecipes (snd (AddRecipeScreen_handleSave f now st)))
           = Inr (JArr (rs @ [JObj ((AddRecipeScreen_newRecipe f)
                                (''id'' \<mapsto> JStr (''user_'' @ toString now),
                                 ''category'' \<mapsto> JStr ''myfood''))]))"
proof -
  let ?new = "(AddRecipeScreen_newRecipe f)
                 (''id'' \<mapsto> JStr (''user_'' @ toString now), ''category'' \<mapsto> JStr ''myfood'')"
  have a: "addMyRecipe (AddRecipeScreen_newRecipe f) now st =
      (Inr (Some ?new), st\<lparr>items := (items st)(MY_RECIPES_KEY \<mapsto> Json (JArr (rs @ [JObj ?new])))\<rparr>)"
    using assms(3,4) by (rule addMyRecipe_saved)
  show ?thesis
    using assms(1,2)
    by (simp add: AddRecipeScreen_handleSave_def await_def resolve_def a getMyRecipes_eq)
qed

lemma AddRecipeScreen_handleSave_unwritable:
  assumes "trim (name f) \<noteq> []"
    and "setItem_rejects st"
    and "fst (getMyRecipes st) = Inr (JArr rs)"
  shows "AddRecipeScreen_handleSave f now st
           = (Inr (Alert ''Success'' ''Recipe saved successfully!''), st)"
proof -
  have g: "getMyRecipes st = (Inr (JArr rs), st)"
    using assms(3) by (simp add: getMyRecipes_eq)
  show ?thesis
    using assms(1,2)
    by (simp add: AddRecipeScreen_handleSave_def addMyRecipe_def try_catch_def await_def
        lift_def resolve_def g push_def saveMyRecipes_eq Let_def)
qed

end
